theory Spec2Isabelle
  imports Complex_Main
begin

section \<open>Data model\<close>

text \<open>
  The wind-tunnel package works on \<^verbatim>\<open>pyvista.PolyData\<close> meshes. A mesh is
  modelled by what the source reads from it: the ordered sequence of its points and the
  ordered sequence of its polygonal faces, each face being the list of the indices of
  its points. A Python float is modelled as the real number it denotes. The arithmetic
  of the geometry normalizer is the arithmetic of IEEE doubles: every sum, difference,
  product and quotient is rounded (see below).
\<close>

type_synonym vec3 = "real \<times> real \<times> real"

record mesh =
  points :: "vec3 list"
  faces :: "nat list list"

text \<open>
  The Python exceptions the modelled functions raise. A \<^verbatim>\<open>ValueError\<close> carries its
  message, which tells the places that raise it apart.
\<close>

datatype error =
    ValueError string
  | ZeroDivisionError
  | IndexError
  | StopIteration
  | FileNotFoundError

subsection \<open>Double arithmetic\<close>

text \<open>
  A Python float is an IEEE binary64 number: a significand of 53 bits. An arithmetic
  operation returns the exact result rounded to the nearest such number, a tie going to
  the even significand. \<^term>\<open>significand\<close> brings a positive number into the range
  from \<open>2 ^ 52\<close> up to \<open>2 ^ 53\<close> by doubling or halving it, and returns with it the
  weight of a unit of the significand; the fuel covers the whole exponent range of the
  format. Overflow and subnormal numbers are not modelled.
\<close>

definition rne :: "real \<Rightarrow> int" where
  "rne y =
     (let n = \<lfloor>y\<rfloor>; r = y - of_int n
      in if r < 1 / 2 then n else if 1 / 2 < r then n + 1 else if even n then n else n + 1)"

fun significand :: "nat \<Rightarrow> real \<Rightarrow> real \<Rightarrow> real \<times> real" where
  "significand 0 y u = (y, u)"
| "significand (Suc n) y u =
     (if y < 2 ^ 52 then significand n (2 * y) (u / 2)
      else if 2 ^ 53 \<le> y then significand n (y / 2) (2 * u)
      else (y, u))"

definition double_round :: "real \<Rightarrow> real" where
  "double_round x =
     (if x = 0 then 0
      else case significand 2200 \<bar>x\<bar> 1 of (y, u) \<Rightarrow> sgn x * of_int (rne y) * u)"

definition fadd :: "real \<Rightarrow> real \<Rightarrow> real" where
  "fadd a b = double_round (a + b)"

definition fsub :: "real \<Rightarrow> real \<Rightarrow> real" where
  "fsub a b = double_round (a - b)"

definition fmul :: "real \<Rightarrow> real \<Rightarrow> real" where
  "fmul a b = double_round (a * b)"

definition fdiv :: "real \<Rightarrow> real \<Rightarrow> real" where
  "fdiv a b = double_round (a / b)"

definition xs_of :: "vec3 list \<Rightarrow> real list" where
  "xs_of ps = map (\<lambda>(x, y, z). x) ps"

definition ys_of :: "vec3 list \<Rightarrow> real list" where
  "ys_of ps = map (\<lambda>(x, y, z). y) ps"

definition zs_of :: "vec3 list \<Rightarrow> real list" where
  "zs_of ps = map (\<lambda>(x, y, z). z) ps"

text \<open>
  \<^verbatim>\<open>mesh.bounds\<close> is the tuple \<^verbatim>\<open>(x_min, x_max, y_min, y_max, z_min, z_max)\<close> of
  the axis-aligned bounding box of the points; the source reads it by index. For a mesh
  without points the library reports the bounds \<^verbatim>\<open>(1, -1, 1, -1, 1, -1)\<close>.
\<close>

definition bounds :: "mesh \<Rightarrow> real list" where
  "bounds m =
     (if points m = [] then [1, - 1, 1, - 1, 1, - 1]
      else
        [Min (set (xs_of (points m))), Max (set (xs_of (points m))),
         Min (set (ys_of (points m))), Max (set (ys_of (points m))),
         Min (set (zs_of (points m))), Max (set (zs_of (points m)))])"

text \<open>
  The three extents of the bounding box, as \<^verbatim>\<open>_get_scaling_factor\<close> computes them:
  differences of doubles.
\<close>

definition x_dimension :: "mesh \<Rightarrow> real" where
  "x_dimension m = fsub (bounds m ! 1) (bounds m ! 0)"

definition y_dimension :: "mesh \<Rightarrow> real" where
  "y_dimension m = fsub (bounds m ! 3) (bounds m ! 2)"

definition z_dimension :: "mesh \<Rightarrow> real" where
  "z_dimension m = fsub (bounds m ! 5) (bounds m ! 4)"




subsection \<open>Mesh objects and references\<close>

text \<open>
  Python passes meshes by reference. The store holds the mesh objects that exist; a
  reference is an index into it. \<^verbatim>\<open>mesh.scale(f)\<close> and \<^verbatim>\<open>mesh.translate(v)\<close> are
  called without \<^verbatim>\<open>inplace=True\<close>: each builds a new mesh object and returns a
  reference to it. Every coordinate of the new mesh is one rounded product, or one
  rounded sum.
\<close>

type_synonym ref = nat
type_synonym store = "mesh list"

definition alloc :: "store \<Rightarrow> mesh \<Rightarrow> ref \<times> store" where
  "alloc st m = (length st, st @ [m])"

definition scaled :: "real \<Rightarrow> mesh \<Rightarrow> mesh" where
  "scaled f m =
     m\<lparr>points := map (\<lambda>(x, y, z). (fmul f x, fmul f y, fmul f z)) (points m)\<rparr>"

definition translated :: "vec3 \<Rightarrow> mesh \<Rightarrow> mesh" where
  "translated v m =
     (case v of (dx, dy, dz) \<Rightarrow>
        m\<lparr>points := map (\<lambda>(x, y, z). (fadd x dx, fadd y dy, fadd z dz)) (points m)\<rparr>)"

definition pv_scale :: "store \<Rightarrow> ref \<Rightarrow> real \<Rightarrow> ref \<times> store" where
  "pv_scale st r f = alloc st (scaled f (st ! r))"

definition pv_translate :: "store \<Rightarrow> ref \<Rightarrow> vec3 \<Rightarrow> ref \<times> store" where
  "pv_translate st r v = alloc st (translated v (st ! r))"

section \<open>Geometry normalizer (pre\_processing.py)\<close>

text \<open>
  \<^verbatim>\<open>_get_scaling_factor\<close>: the three divisions are Python float divisions, which
  raise \<^verbatim>\<open>ZeroDivisionError\<close> on a zero divisor, in the order x, y, z.
\<close>

definition get_scaling_factor :: "mesh \<Rightarrow> vec3 \<Rightarrow> error + real" where
  "get_scaling_factor m max_dimensions =
     (case max_dimensions of (l0, l1, l2) \<Rightarrow>
        if x_dimension m = 0 then Inl ZeroDivisionError
        else if y_dimension m = 0 then Inl ZeroDivisionError
        else if z_dimension m = 0 then Inl ZeroDivisionError
        else
          let scaling_factor_x = fdiv l0 (x_dimension m);
              scaling_factor_y = fdiv l1 (y_dimension m);
              scaling_factor_z = fdiv l2 (z_dimension m)
          in Inr (min scaling_factor_x (min scaling_factor_y scaling_factor_z)))"

definition normalize_mesh :: "store \<Rightarrow> ref \<Rightarrow> vec3 \<Rightarrow> (error + ref \<times> real) \<times> store" where
  "normalize_mesh st r max_dimensions =
     (case get_scaling_factor (st ! r) max_dimensions of
        Inl e \<Rightarrow> (Inl e, st)
      | Inr scaling_factor \<Rightarrow>
          (case pv_scale st r scaling_factor of
             (r', st') \<Rightarrow> (Inr (r', scaling_factor), st')))"

definition move_mesh_to_origin :: "store \<Rightarrow> ref \<Rightarrow> (ref \<times> vec3) \<times> store" where
  "move_mesh_to_origin st r =
     (let z_displace = bounds (st ! r) ! 4;
          y_displace = fdiv (fadd (bounds (st ! r) ! 2) (bounds (st ! r) ! 3)) 2;
          x_displace = fdiv (fadd (bounds (st ! r) ! 0) (bounds (st ! r) ! 1)) 2;
          displace_vector = (- x_displace, - y_displace, - z_displace)
      in case pv_translate st r displace_vector of
           (r', st') \<Rightarrow> ((r', displace_vector), st'))"

definition compute_object_length :: "mesh \<Rightarrow> real" where
  "compute_object_length m = fsub (bounds m ! 1) (bounds m ! 0)"

subsection \<open>Computations that do not round\<close>



subsection \<open>Sample meshes\<close>

text \<open>
  A single triangle spanning a box of extents 1, 2 and 4; one spanning a cube of side 49;
  one spanning the box whose extents are the doubles written \<^verbatim>\<open>4.9\<close>, \<^verbatim>\<open>0.1\<close> and
  \<^verbatim>\<open>0.1\<close>; and one whose x bounds are 1 and the next double after 1.
\<close>

definition box_mesh :: mesh where
  "box_mesh = \<lparr>points = [(0, 0, 0), (1, 2, 4), (1, 0, 0)], faces = [[0, 1, 2]]\<rparr>"




section \<open>Area estimator (pre\_processing.py)\<close>

text \<open>
  The estimator hands the mesh to a chain of library routines (pyvista, shapely). The
  model records the calls the source makes, in order, with the arguments it computes;
  the value the function returns is the value of the last call.
\<close>

datatype pv_call =
    Triangulate
  | Decimate real
  | ProjectPointsToPlane vec3 vec3
  | UnionAllPolygons "nat list"
  | Slice vec3 vec3
  | Delaunay2D
  | Area

definition NUM_DECIMATION_CELLS :: nat where
  "NUM_DECIMATION_CELLS = 5000"

definition n_cells :: "mesh \<Rightarrow> nat" where
  "n_cells m = length (faces m)"

text \<open>
  \<^verbatim>\<open>mesh.center\<close> is the centre of the bounding box of the mesh.
\<close>

definition center :: "mesh \<Rightarrow> vec3" where
  "center m =
     ((bounds m ! 0 + bounds m ! 1) / 2,
      (bounds m ! 2 + bounds m ! 3) / 2,
      (bounds m ! 4 + bounds m ! 5) / 2)"

definition compute_cutting_plane_area :: "mesh \<Rightarrow> vec3 \<Rightarrow> pv_call list" where
  "compute_cutting_plane_area m face_normal = [Slice (center m) face_normal, Delaunay2D, Area]"

text \<open>
  \<^verbatim>\<open>compute_projected_area\<close>: the axis is checked first; the division by
  \<^verbatim>\<open>mesh.n_cells\<close> raises \<^verbatim>\<open>ZeroDivisionError\<close> on a mesh without cells; the
  call of \<^verbatim>\<open>triangulate\<close> stands under the \<^verbatim>\<open>if\<close>, the call of
  \<^verbatim>\<open>decimate\<close> after it.
\<close>

definition compute_projected_area :: "mesh \<Rightarrow> string \<Rightarrow> error + pv_call list" where
  "compute_projected_area m projection_plane =
     (case (if projection_plane = ''X'' then Inr ([1, 2], (1, 0, 0))
            else if projection_plane = ''Y'' then Inr ([0, 2], (0, 1, 0))
            else if projection_plane = ''Z'' then Inr ([0, 1], (0, 0, 1))
            else Inl (ValueError ''Invalid projection plane. Choose from 'X', 'Y', 'Z'.'')) of
        Inl e \<Rightarrow> Inl e
      | Inr (indices, normal) \<Rightarrow>
          if n_cells m = 0 then Inl ZeroDivisionError
          else
            let decimation_factor = 1 - real NUM_DECIMATION_CELLS / real (n_cells m)
            in Inr ((if decimation_factor < 1 then [Triangulate] else [])
                    @ [Decimate decimation_factor,
                       ProjectPointsToPlane (0, 0, 0) normal,
                       Triangulate,
                       UnionAllPolygons indices,
                       Area]))"

text \<open>
  The centroid of a mesh in the sense of the specification of the cutting plane: the mean
  of its points. It is compared with \<^const>\<open>center\<close> below.
\<close>

definition centroid :: "mesh \<Rightarrow> vec3" where
  "centroid m =
     (sum_list (xs_of (points m)) / real (length (points m)),
      sum_list (ys_of (points m)) / real (length (points m)),
      sum_list (zs_of (points m)) / real (length (points m)))"

definition on_plane :: "vec3 \<Rightarrow> vec3 \<Rightarrow> vec3 \<Rightarrow> bool" where
  "on_plane origin normal p \<longleftrightarrow>
     (case (origin, normal, p) of
        ((ox, oy, oz), (nx, ny, nz), (px, py, pz)) \<Rightarrow>
          (px - ox) * nx + (py - oy) * ny + (pz - oz) * nz = 0)"

definition tetra_mesh :: mesh where
  "tetra_mesh =
     \<lparr>points = [(0, 0, 0), (1, 0, 0), (0, 1, 0), (0, 0, 1)],
      faces = [[0, 2, 1], [0, 1, 3], [0, 3, 2], [1, 2, 3]]\<rparr>"

definition quad_mesh :: mesh where
  "quad_mesh = \<lparr>points = [(0, 0, 0), (1, 0, 0), (1, 1, 0), (0, 1, 0)], faces = [[0, 1, 2, 3]]\<rparr>"

section \<open>Mesh export (pre\_processing.py)\<close>

text \<open>
  The type of a polygonal cell follows the number of its points. \<^verbatim>\<open>mesh.faces\<close> is
  the flat array in which every face is preceded by the number of its points.
\<close>

datatype cell_type = TRIANGLE | QUAD | POLYGON

definition cell_type_of :: "nat list \<Rightarrow> cell_type" where
  "cell_type_of face =
     (if length face = 3 then TRIANGLE else if length face = 4 then QUAD else POLYGON)"

definition pv_faces :: "mesh \<Rightarrow> nat list" where
  "pv_faces m = concat (map (\<lambda>face. length face # face) (faces m))"

text \<open>
  \<^verbatim>\<open>array.reshape((-1, k))\<close> cuts the flat array into rows of \<open>k\<close> entries and
  raises \<^verbatim>\<open>ValueError\<close> when the length is not a multiple of \<open>k\<close>.
\<close>

primrec rows :: "nat \<Rightarrow> nat \<Rightarrow> 'a list \<Rightarrow> 'a list list" where
  "rows 0 k xs = []"
| "rows (Suc n) k xs = take k xs # rows n k (drop k xs)"

definition reshape :: "nat \<Rightarrow> 'a list \<Rightarrow> error + 'a list list" where
  "reshape k xs =
     (if length xs mod k \<noteq> 0 then Inl (ValueError ''cannot reshape array'')
      else Inr (rows (length xs div k) k xs))"

record trimesh =
  vertices :: "vec3 list"
  tri_faces :: "nat list list"

type_synonym exported = "string \<rightharpoonup> trimesh"

text \<open>
  \<^verbatim>\<open>save_mesh_obj\<close>: \<^verbatim>\<open>mesh.get_cell(0)\<close> raises \<^verbatim>\<open>IndexError\<close> on a mesh
  without cells. The files written so far are passed in and returned.
\<close>

definition save_mesh_obj :: "exported \<Rightarrow> mesh \<Rightarrow> string \<Rightarrow> (error + unit) \<times> exported" where
  "save_mesh_obj fs m dest_object_path =
     (case faces m of
        [] \<Rightarrow> (Inl IndexError, fs)
      | cell0 # _ \<Rightarrow>
          (let mesh_type = cell_type_of cell0
           in (case (if mesh_type = TRIANGLE then Inr 4
                     else if mesh_type = QUAD then Inr 5
                     else Inl (ValueError ''Mesh cell type not supported'')) of
                 Inl e \<Rightarrow> (Inl e, fs)
               | Inr shape_vertices \<Rightarrow>
                   (case reshape shape_vertices (pv_faces m) of
                      Inl e \<Rightarrow> (Inl e, fs)
                    | Inr table \<Rightarrow>
                        (Inr (),
                         fs(dest_object_path \<mapsto>
                              \<lparr>vertices = points m, tri_faces = map tl table\<rparr>))))))"

definition mixed_mesh :: mesh where
  "mixed_mesh =
     \<lparr>points = [(0, 0, 0), (1, 0, 0), (1, 1, 0), (0, 1, 0), (0, 0, 1), (1, 0, 1), (1, 1, 1), (0, 1, 1)],
      faces = [[0, 1, 2], [3, 4, 5, 6, 7], [0, 1, 2, 3, 4]]\<rparr>"

definition pentagon_mesh :: mesh where
  "pentagon_mesh =
     \<lparr>points = [(0, 0, 0), (2, 0, 0), (3, 2, 0), (1, 3, 0), (- 1, 2, 0)],
      faces = [[0, 1, 2, 3, 4]]\<rparr>"

section \<open>Tunnel walls (display.py)\<close>

text \<open>What the plotter holds: the geometry of every \<^verbatim>\<open>add_mesh\<close> call, in order.\<close>

datatype geometry =
    Plane (plane_center: vec3) (plane_direction: vec3) (i_size: real) (j_size: real)
  | Sphere real vec3

record actor =
  geom :: geometry
  color :: string
  opacity :: real
  show_edges :: "bool option"

definition get_x_aligned_rectangle :: "real \<Rightarrow> real \<Rightarrow> real \<Rightarrow> real \<Rightarrow> real \<Rightarrow> geometry" where
  "get_x_aligned_rectangle x y_min y_max z_min z_max =
     (let y_mean = (y_min + y_max) / 2;
          z_mean = (z_min + z_max) / 2;
          y_length = y_max - y_min;
          z_length = z_max - z_min
      in Plane (x, y_mean, z_mean) (1, 0, 0) z_length y_length)"

definition get_y_aligned_rectangle :: "real \<Rightarrow> real \<Rightarrow> real \<Rightarrow> real \<Rightarrow> real \<Rightarrow> geometry" where
  "get_y_aligned_rectangle y x_min x_max z_min z_max =
     (let x_mean = (x_min + x_max) / 2;
          z_mean = (z_min + z_max) / 2;
          x_length = x_max - x_min;
          z_length = z_max - z_min
      in Plane (x_mean, y, z_mean) (0, 1, 0) z_length x_length)"

definition get_z_aligned_rectangle :: "real \<Rightarrow> real \<Rightarrow> real \<Rightarrow> real \<Rightarrow> real \<Rightarrow> geometry" where
  "get_z_aligned_rectangle z x_min x_max y_min y_max =
     (let x_mean = (x_min + x_max) / 2;
          y_mean = (y_min + y_max) / 2;
          x_length = x_max - x_min;
          y_length = y_max - y_min
      in Plane (x_mean, y_mean, z) (0, 0, 1) x_length y_length)"

record visualizer =
  x_min :: real
  x_max :: real
  y_min :: real
  y_max :: real
  z_min :: real
  z_max :: real
  plt :: "actor list"

definition add_walls :: "visualizer \<Rightarrow> real \<Rightarrow> visualizer" where
  "add_walls self opac =
     self\<lparr>plt := plt self @
       [\<lparr>geom = get_x_aligned_rectangle (x_min self) (y_min self) (y_max self) (z_min self) (z_max self),
         color = ''red'', opacity = opac, show_edges = None\<rparr>,
        \<lparr>geom = get_x_aligned_rectangle (x_max self) (y_min self) (y_max self) (z_min self) (z_max self),
         color = ''red'', opacity = opac, show_edges = Some True\<rparr>,
        \<lparr>geom = get_y_aligned_rectangle (y_min self) (x_min self) (x_max self) (z_min self) (z_max self),
         color = ''green'', opacity = opac, show_edges = Some True\<rparr>,
        \<lparr>geom = get_z_aligned_rectangle (z_min self) (x_min self) (x_max self) (y_min self) (y_max self),
         color = ''blue'', opacity = opac, show_edges = Some True\<rparr>]\<rparr>"

definition add_origin_sphere :: "visualizer \<Rightarrow> real \<Rightarrow> string \<Rightarrow> visualizer" where
  "add_origin_sphere self radius col =
     self\<lparr>plt := plt self @
       [\<lparr>geom = Sphere radius (0, 0, 0), color = col, opacity = 1, show_edges = None\<rparr>]\<rparr>"

text \<open>The constructor: the walls with their default opacity, then the origin sphere.\<close>

definition WindTunnelVisualizer :: "real \<Rightarrow> real \<Rightarrow> real \<Rightarrow> real \<Rightarrow> real \<Rightarrow> real \<Rightarrow> visualizer" where
  "WindTunnelVisualizer xmin xmax ymin ymax zmin zmax =
     add_origin_sphere
       (add_walls
          \<lparr>x_min = xmin, x_max = xmax, y_min = ymin, y_max = ymax,
           z_min = zmin, z_max = zmax, plt = []\<rparr>
          (1 / 2))
       (1 / 10) ''black''"

definition walls :: "visualizer \<Rightarrow> geometry list" where
  "walls v = filter is_Plane (map geom (plt v))"

section \<open>Force coefficient history (display.py)\<close>

text \<open>
  Characters are the code points below 256. \<^verbatim>\<open>str.lower\<close> maps the upper-case
  letters of that range to their lower-case letters and leaves every other character.
\<close>

definition uppercase :: "char list" where
  "uppercase = ''ABCDEFGHIJKLMNOPQRSTUVWXYZ'' @
     [CHR 0xC0, CHR 0xC1, CHR 0xC2, CHR 0xC3, CHR 0xC4, CHR 0xC5, CHR 0xC6, CHR 0xC7,
      CHR 0xC8, CHR 0xC9, CHR 0xCA, CHR 0xCB, CHR 0xCC, CHR 0xCD, CHR 0xCE, CHR 0xCF,
      CHR 0xD0, CHR 0xD1, CHR 0xD2, CHR 0xD3, CHR 0xD4, CHR 0xD5, CHR 0xD6, CHR 0xD8,
      CHR 0xD9, CHR 0xDA, CHR 0xDB, CHR 0xDC, CHR 0xDD, CHR 0xDE]"

definition lowercase :: "char list" where
  "lowercase = ''abcdefghijklmnopqrstuvwxyz'' @
     [CHR 0xE0, CHR 0xE1, CHR 0xE2, CHR 0xE3, CHR 0xE4, CHR 0xE5, CHR 0xE6, CHR 0xE7,
      CHR 0xE8, CHR 0xE9, CHR 0xEA, CHR 0xEB, CHR 0xEC, CHR 0xED, CHR 0xEE, CHR 0xEF,
      CHR 0xF0, CHR 0xF1, CHR 0xF2, CHR 0xF3, CHR 0xF4, CHR 0xF5, CHR 0xF6, CHR 0xF8,
      CHR 0xF9, CHR 0xFA, CHR 0xFB, CHR 0xFC, CHR 0xFD, CHR 0xFE]"

definition lower_char :: "char \<Rightarrow> char" where
  "lower_char c = (case map_of (zip uppercase lowercase) c of Some l \<Rightarrow> l | None \<Rightarrow> c)"

definition lower :: "string \<Rightarrow> string" where
  "lower s = map lower_char s"

text \<open>
  \<^verbatim>\<open>str.split()\<close> without arguments: the words between runs of whitespace, none of
  them empty.
\<close>

definition isspace :: "char \<Rightarrow> bool" where
  "isspace c \<longleftrightarrow>
     c \<in> set [CHR 0x09, CHR 0x0A, CHR 0x0B, CHR 0x0C, CHR 0x0D, CHR 0x1C, CHR 0x1D,
              CHR 0x1E, CHR 0x1F, CHR 0x20, CHR 0x85, CHR 0xA0]"

fun split_from :: "string \<Rightarrow> string \<Rightarrow> string list" where
  "split_from word [] = (if word = [] then [] else [word])"
| "split_from word (c # cs) =
     (if isspace c
      then (if word = [] then split_from [] cs else word # split_from [] cs)
      else split_from (word @ [c]) cs)"

definition split :: "string \<Rightarrow> string list" where
  "split line = split_from [] line"

definition coeffs_map :: "string \<rightharpoonup> nat" where
  "coeffs_map =
     map_of [(''moment'', 1), (''drag'', 2), (''lift'', 3), (''front lift'', 4), (''rear lift'', 5)]"

definition invalid_coefficient :: "string \<Rightarrow> string" where
  "invalid_coefficient coefficient =
     ''Invalid coefficient: '' @ coefficient @
     '' must be one of                 (Moment, Drag, Lift, Front Lift, Rear Lift)''"

text \<open>
  The two loops over the open file. \<^verbatim>\<open>next(file)\<close> raises \<^verbatim>\<open>StopIteration\<close> at
  the end of the file. In the second loop \<^verbatim>\<open>columns[i]\<close> raises \<^verbatim>\<open>IndexError\<close>
  when the line has too few words and \<^verbatim>\<open>float\<close> raises \<^verbatim>\<open>ValueError\<close> on a
  word that is no number. The conversion \<^verbatim>\<open>float\<close> is a parameter of the model: a
  function from a word to the number it denotes, if any.
\<close>

fun skip_lines :: "nat \<Rightarrow> string list \<Rightarrow> error + string list" where
  "skip_lines 0 file = Inr file"
| "skip_lines (Suc n) [] = Inl StopIteration"
| "skip_lines (Suc n) (line # file) = skip_lines n file"

definition not_a_float :: "string \<Rightarrow> string" where
  "not_a_float word = ''could not convert string to float: '' @ [CHR 0x27] @ word @ [CHR 0x27]"

fun read_rows ::
  "(string \<Rightarrow> real option) \<Rightarrow> nat \<Rightarrow> string list \<Rightarrow> real list \<Rightarrow> real list
     \<Rightarrow> error + real list \<times> real list" where
  "read_rows to_float k [] time coeff = Inr (time, coeff)"
| "read_rows to_float k (line # file) time coeff =
     (let columns = split line
      in if length columns \<le> 0 then Inl IndexError
         else case to_float (columns ! 0) of
                None \<Rightarrow> Inl (ValueError (not_a_float (columns ! 0)))
              | Some t \<Rightarrow>
                  if length columns \<le> k then Inl IndexError
                  else (case to_float (columns ! k) of
                          None \<Rightarrow> Inl (ValueError (not_a_float (columns ! k)))
                        | Some c \<Rightarrow> read_rows to_float k file (time @ [t]) (coeff @ [c])))"

record figure =
  plot_time :: "real list"
  plot_coeff :: "real list"
  xlabel :: string
  ylabel :: string
  title :: string

text \<open>
  \<^verbatim>\<open>plot_force_coefficients\<close>: the text files are a map from paths to their lines.
  The function returns what it plots, or the exception, together with the paths it has
  opened.
\<close>

definition plot_force_coefficients ::
  "(string \<Rightarrow> real option) \<Rightarrow> (string \<rightharpoonup> string list) \<Rightarrow> string \<Rightarrow> string
     \<Rightarrow> (error + figure) \<times> string list" where
  "plot_force_coefficients to_float files force_coefficients_file_path coefficient0 =
     (let coefficient = lower coefficient0
      in case coeffs_map coefficient of
           None \<Rightarrow> (Inl (ValueError (invalid_coefficient coefficient)), [])
         | Some k \<Rightarrow>
             (case files force_coefficients_file_path of
                None \<Rightarrow> (Inl FileNotFoundError, [force_coefficients_file_path])
              | Some file \<Rightarrow>
                  (case skip_lines 9 file of
                     Inl e \<Rightarrow> (Inl e, [force_coefficients_file_path])
                   | Inr rest \<Rightarrow>
                       (case read_rows to_float k rest [] [] of
                          Inl e \<Rightarrow> (Inl e, [force_coefficients_file_path])
                        | Inr (time, coeff) \<Rightarrow>
                            (Inr \<lparr>plot_time = time, plot_coeff = coeff,
                                  xlabel = ''Time'', ylabel = coefficient,
                                  title = coefficient @ '' vs Time''\<rparr>,
                             [force_coefficients_file_path])))))"

text \<open>
  The plain decimal literals among the words \<^verbatim>\<open>float\<close> accepts: an optional sign,
  digits, and an optional point followed by digits, with at least one digit.
\<close>

definition digit_of :: "char \<Rightarrow> nat option" where
  "digit_of c = map_of (zip ''0123456789'' [0, 1, 2, 3, 4, 5, 6, 7, 8, 9]) c"

fun digits_value :: "nat \<Rightarrow> string \<Rightarrow> nat option" where
  "digits_value acc [] = Some acc"
| "digits_value acc (c # cs) =
     (case digit_of c of None \<Rightarrow> None | Some d \<Rightarrow> digits_value (10 * acc + d) cs)"

definition float_of_decimal :: "string \<Rightarrow> real option" where
  "float_of_decimal s =
     (let (sign, body) =
            (case s of
               c # r \<Rightarrow>
                 if c = CHR ''-'' then (- 1, r) else if c = CHR ''+'' then (1, r) else (1, s)
             | [] \<Rightarrow> (1, s));
          int_part = takeWhile (\<lambda>c. c \<noteq> CHR ''.'') body;
          frac_part = drop 1 (dropWhile (\<lambda>c. c \<noteq> CHR ''.'') body)
      in if int_part = [] \<and> frac_part = [] then None
         else case (digits_value 0 int_part, digits_value 0 frac_part) of
                (Some a, Some b) \<Rightarrow> Some (sign * (real a + real b / 10 ^ length frac_part))
              | _ \<Rightarrow> None)"

definition header9 :: "string list" where
  "header9 =
     [''# Force coefficients'', ''# liftDir'', ''# dragDir'', ''# pitchAxis'', ''# magUInf'',
      ''# lRef'', ''# Aref'', ''# CofR'', ''# Time Cm Cd Cl Cl(f) Cl(r)'']"

text \<open>
  A data line is well formed for column \<open>k\<close> when it has more than \<open>k\<close> words and
  its words 0 and \<open>k\<close> are numbers.
\<close>

definition row_ok :: "(string \<Rightarrow> real option) \<Rightarrow> nat \<Rightarrow> string \<Rightarrow> bool" where
  "row_ok to_float k line \<longleftrightarrow>
     k < length (split line) \<and> to_float (split line ! 0) \<noteq> None \<and> to_float (split line ! k) \<noteq> None"

section \<open>Evaluating double arithmetic\<close>





section \<open>Bounding boxes under scaling and translation\<close>













section \<open>Claims about the geometry normalizer\<close>











text \<open>
  Claim C9. \<^verbatim>\<open>normalize_mesh\<close> and \<^verbatim>\<open>move_mesh_to_origin\<close> leave every mesh
  object that existed before the call as it was, the one passed in included (its points
  and its bounds are unchanged); the mesh they return is a new object.
\<close>

theorem transforms_keep_input_mesh:
  assumes "r < length st"
  shows "(\<forall>i < length st. snd (normalize_mesh st r dims) ! i = st ! i)
       \<and> (\<forall>i < length st. snd (move_mesh_to_origin st r) ! i = st ! i)
       \<and> points (snd (normalize_mesh st r dims) ! r) = points (st ! r)
       \<and> bounds (snd (normalize_mesh st r dims) ! r) = bounds (st ! r)
       \<and> points (snd (move_mesh_to_origin st r) ! r) = points (st ! r)
       \<and> bounds (snd (move_mesh_to_origin st r) ! r) = bounds (st ! r)
       \<and> (\<forall>r' f. fst (normalize_mesh st r dims) = Inr (r', f) \<longrightarrow> r' = length st)
       \<and> fst (fst (move_mesh_to_origin st r)) = length st"
  using assms
  by (auto simp: normalize_mesh_def move_mesh_to_origin_def pv_scale_def pv_translate_def
      alloc_def Let_def nth_append split: sum.splits)

theorem transforms_keep_input_mesh_witness:
  "snd (normalize_mesh [box_mesh] 0 (10, 2, 1)) ! 0 = box_mesh
   \<and> snd (move_mesh_to_origin [box_mesh] 0) ! 0 = box_mesh
   \<and> fst (fst (move_mesh_to_origin [box_mesh] 0)) = 1"
  using transforms_keep_input_mesh [of 0 "[box_mesh]" "(10, 2, 1)"]
  by simp

section \<open>Claims about the area estimator\<close>

lemma decimation_factor_range:
  fixes n :: nat
  assumes "0 < n"
  shows "1 - real NUM_DECIMATION_CELLS / real n < 1"
    and "0 < 1 - real NUM_DECIMATION_CELLS / real n \<longleftrightarrow> NUM_DECIMATION_CELLS < n"
  using assms by (simp_all add: NUM_DECIMATION_CELLS_def field_simps)

text \<open>
  Claim C3 says that a mesh at or below the threshold of 5000 cells reaches the projection
  untouched, neither triangulated nor decimated. The source does otherwise: a mesh of a
  single quad has one cell, and \<^verbatim>\<open>compute_projected_area\<close> calls
  \<^verbatim>\<open>triangulate\<close> on it and then \<^verbatim>\<open>decimate\<close> with the factor \<open>-4999\<close>,
  which is no fraction of the cells to remove.
\<close>

theorem projected_area_small_mesh_decimated:
  "n_cells quad_mesh \<le> NUM_DECIMATION_CELLS
   \<and> compute_projected_area quad_mesh ''Z''
       = Inr [Triangulate, Decimate (- 4999), ProjectPointsToPlane (0, 0, 0) (0, 0, 1),
              Triangulate, UnionAllPolygons [0, 1], Area]"
  by (simp add: compute_projected_area_def n_cells_def quad_mesh_def NUM_DECIMATION_CELLS_def)

text \<open>
  The reach of that defect: the guard \<^verbatim>\<open>decimation_factor < 1\<close> holds for every mesh
  with a cell, and the call of \<^verbatim>\<open>decimate\<close> does not stand under it, so the calls
  are the same on every such mesh, while the factor is a fraction between 0 and 1 only
  above the threshold.
\<close>

lemma compute_projected_area_calls:
  "compute_projected_area m ''Z'' =
     (if n_cells m = 0 then Inl ZeroDivisionError
      else Inr [Triangulate, Decimate (1 - real NUM_DECIMATION_CELLS / real (n_cells m)),
                ProjectPointsToPlane (0, 0, 0) (0, 0, 1), Triangulate, UnionAllPolygons [0, 1], Area])
   \<and> compute_projected_area m ''Y'' =
     (if n_cells m = 0 then Inl ZeroDivisionError
      else Inr [Triangulate, Decimate (1 - real NUM_DECIMATION_CELLS / real (n_cells m)),
                ProjectPointsToPlane (0, 0, 0) (0, 1, 0), Triangulate, UnionAllPolygons [0, 2], Area])
   \<and> compute_projected_area m ''X'' =
     (if n_cells m = 0 then Inl ZeroDivisionError
      else Inr [Triangulate, Decimate (1 - real NUM_DECIMATION_CELLS / real (n_cells m)),
                ProjectPointsToPlane (0, 0, 0) (1, 0, 0), Triangulate, UnionAllPolygons [1, 2], Area])
   \<and> ((0 < 1 - real NUM_DECIMATION_CELLS / real (n_cells m)
        \<and> 1 - real NUM_DECIMATION_CELLS / real (n_cells m) < 1)
       \<longleftrightarrow> NUM_DECIMATION_CELLS < n_cells m)"
proof -
  have range: "(0 < 1 - real NUM_DECIMATION_CELLS / real (n_cells m)
        \<and> 1 - real NUM_DECIMATION_CELLS / real (n_cells m) < 1)
       \<longleftrightarrow> NUM_DECIMATION_CELLS < n_cells m"
  proof (cases "n_cells m = 0")
    case True
    then show ?thesis by (simp add: NUM_DECIMATION_CELLS_def)
  next
    case False
    then have "0 < n_cells m" by simp
    from decimation_factor_range [OF this] show ?thesis by simp
  qed
  have lt: "n_cells m \<noteq> 0 \<Longrightarrow> 1 - real NUM_DECIMATION_CELLS / real (n_cells m) < 1"
    using decimation_factor_range(1) [of "n_cells m"] by simp
  show ?thesis
    using range lt by (simp add: compute_projected_area_def Let_def)
qed

text \<open>
  Claim C8, as stated, fails: the plane with which \<^verbatim>\<open>compute_cutting_plane_area\<close>
  slices passes through \<^verbatim>\<open>mesh.center\<close>, the centre of the bounding box, and the
  centroid of a tetrahedron with a corner at the origin does not lie on it.
\<close>

theorem cutting_plane_centroid_counterexample:
  "compute_cutting_plane_area tetra_mesh (1, 0, 0)
     = [Slice (1 / 2, 1 / 2, 1 / 2) (1, 0, 0), Delaunay2D, Area]
   \<and> centroid tetra_mesh = (1 / 4, 1 / 4, 1 / 4)
   \<and> \<not> on_plane (1 / 2, 1 / 2, 1 / 2) (1, 0, 0) (centroid tetra_mesh)"
  by (simp add: compute_cutting_plane_area_def center_def bounds_def tetra_mesh_def
      xs_of_def ys_of_def zs_of_def centroid_def on_plane_def)

text \<open>
  Claim C8, amended. \<^verbatim>\<open>compute_cutting_plane_area\<close> slices the mesh with the single
  plane through the centre of its bounding box with the given normal, fills the slice
  with \<^verbatim>\<open>delaunay_2d\<close> and returns the area of the result.
\<close>

theorem cutting_plane_through_bounds_center:
  "compute_cutting_plane_area m face_normal =
     [Slice ((bounds m ! 0 + bounds m ! 1) / 2, (bounds m ! 2 + bounds m ! 3) / 2,
             (bounds m ! 4 + bounds m ! 5) / 2) face_normal,
      Delaunay2D, Area]
   \<and> on_plane (center m) face_normal (center m)"
  by (simp add: compute_cutting_plane_area_def center_def on_plane_def split: prod.splits)

section \<open>Claims about the mesh export\<close>

lemma rows_numeral:
  "rows (numeral n) k xs = take k xs # rows (pred_numeral n) k (drop k xs)"
  by (simp add: numeral_eq_Suc)

lemma pv_faces_mixed_mesh: "pv_faces mixed_mesh = [3, 0, 1, 2, 5, 3, 4, 5, 6, 7, 5, 0, 1, 2, 3, 4]"
  by (simp add: pv_faces_def mixed_mesh_def)

lemma length_pv_faces:
  assumes "\<forall>face \<in> set fs. length face = k"
  shows "length (concat (map (\<lambda>face. length face # face) fs)) = length fs * Suc k"
  using assms by (induction fs) simp_all

lemma rows_pv_faces:
  assumes "\<forall>face \<in> set fs. length face = k"
  shows "rows (length fs) (Suc k) (concat (map (\<lambda>face. length face # face) fs))
           = map (\<lambda>face. length face # face) fs"
  using assms by (induction fs) simp_all

lemma reshape_pv_faces:
  assumes "\<forall>face \<in> set (faces m). length face = k"
  shows "reshape (Suc k) (pv_faces m) = Inr (map (\<lambda>face. length face # face) (faces m))"
proof -
  have len: "length (pv_faces m) = length (faces m) * Suc k"
    using length_pv_faces [OF assms] by (simp add: pv_faces_def)
  have "length (pv_faces m) mod Suc k = 0"
    unfolding len by (simp del: mult_Suc_right)
  moreover have "length (pv_faces m) div Suc k = length (faces m)"
    unfolding len by (simp del: mult_Suc_right)
  moreover have "rows (length (faces m)) (Suc k) (pv_faces m)
      = map (\<lambda>face. length face # face) (faces m)"
    using rows_pv_faces [OF assms] by (simp add: pv_faces_def)
  ultimately show ?thesis
    by (simp add: reshape_def)
qed

lemma strip_marker: "map (tl \<circ> (\<lambda>face. length face # face)) fs = fs"
  by (induction fs) simp_all

text \<open>
  Claim C5 says that a mesh with any cell that is neither a triangle nor a quad is
  refused with the unsupported-cell-type error and that nothing is written. The source
  looks at cell 0 only: a mesh whose first cell is a triangle and whose other cells are
  pentagons is exported without any error. Its flat face array has 16 entries and is cut
  into four rows of four, and the file holds the faces \<open>[7, 5, 0]\<close> and
  \<open>[2, 3, 4]\<close>, which the mesh does not have.
\<close>

theorem save_mesh_obj_mixed_mesh_exported:
  "cell_type_of (faces mixed_mesh ! 1) = POLYGON
   \<and> save_mesh_obj Map.empty mixed_mesh ''out.obj''
       = (Inr (), [''out.obj'' \<mapsto>
            \<lparr>vertices = points mixed_mesh,
             tri_faces = [[0, 1, 2], [3, 4, 5], [7, 5, 0], [2, 3, 4]]\<rparr>])"
proof -
  have "faces mixed_mesh = [[0, 1, 2], [3, 4, 5, 6, 7], [0, 1, 2, 3, 4]]"
    by (simp add: mixed_mesh_def)
  then show ?thesis
    by (simp add: save_mesh_obj_def cell_type_of_def pv_faces_mixed_mesh reshape_def rows_numeral)
qed

text \<open>
  Where the check does what the claim says: a first cell that is neither a triangle nor a
  quad is refused and nothing is written, and a mesh whose cells are all triangles, or
  all quads, is written with its faces, each without its leading count.
\<close>

lemma save_mesh_obj_first_cell:
  "(\<forall>cell0 rest. faces m = cell0 # rest \<longrightarrow> cell_type_of cell0 = POLYGON \<longrightarrow>
      save_mesh_obj fs m path = (Inl (ValueError ''Mesh cell type not supported''), fs))
   \<and> (faces m \<noteq> [] \<longrightarrow>
        (\<forall>face \<in> set (faces m). cell_type_of face = TRIANGLE)
        \<or> (\<forall>face \<in> set (faces m). cell_type_of face = QUAD) \<longrightarrow>
      save_mesh_obj fs m path =
        (Inr (), fs(path \<mapsto> \<lparr>vertices = points m, tri_faces = faces m\<rparr>)))"
proof (intro conjI allI impI)
  fix cell0 rest
  assume "faces m = cell0 # rest" "cell_type_of cell0 = POLYGON"
  then show "save_mesh_obj fs m path = (Inl (ValueError ''Mesh cell type not supported''), fs)"
    by (simp add: save_mesh_obj_def)
next
  assume ne: "faces m \<noteq> []"
    and homog: "(\<forall>face \<in> set (faces m). cell_type_of face = TRIANGLE)
        \<or> (\<forall>face \<in> set (faces m). cell_type_of face = QUAD)"
  from ne obtain cell0 rest where fm: "faces m = cell0 # rest"
    by (cases "faces m") auto
  from homog show "save_mesh_obj fs m path =
        (Inr (), fs(path \<mapsto> \<lparr>vertices = points m, tri_faces = faces m\<rparr>))"
  proof
    assume tri: "\<forall>face \<in> set (faces m). cell_type_of face = TRIANGLE"
    then have len: "\<forall>face \<in> set (faces m). length face = 3"
      by (auto simp: cell_type_of_def split: if_splits)
    have "reshape 4 (pv_faces m) = Inr (map (\<lambda>face. length face # face) (faces m))"
      using reshape_pv_faces [OF len] by (simp add: numeral_eq_Suc)
    moreover have "cell_type_of cell0 = TRIANGLE"
      using tri fm by simp
    ultimately show ?thesis
      by (simp add: save_mesh_obj_def fm strip_marker)
  next
    assume quad: "\<forall>face \<in> set (faces m). cell_type_of face = QUAD"
    then have len: "\<forall>face \<in> set (faces m). length face = 4"
      by (auto simp: cell_type_of_def split: if_splits)
    have "reshape 5 (pv_faces m) = Inr (map (\<lambda>face. length face # face) (faces m))"
      using reshape_pv_faces [OF len] by (simp add: numeral_eq_Suc)
    moreover have "cell_type_of cell0 = QUAD"
      using quad fm by simp
    ultimately show ?thesis
      by (simp add: save_mesh_obj_def fm strip_marker)
  qed
qed

lemma save_mesh_obj_first_cell_examples:
  "save_mesh_obj Map.empty pentagon_mesh ''out.obj''
     = (Inl (ValueError ''Mesh cell type not supported''), Map.empty)
   \<and> save_mesh_obj Map.empty box_mesh ''out.obj''
     = (Inr (), [''out.obj'' \<mapsto> \<lparr>vertices = points box_mesh, tri_faces = [[0, 1, 2]]\<rparr>])
   \<and> save_mesh_obj Map.empty quad_mesh ''out.obj''
     = (Inr (), [''out.obj'' \<mapsto> \<lparr>vertices = points quad_mesh, tri_faces = [[0, 1, 2, 3]]\<rparr>])"
  using save_mesh_obj_first_cell [of pentagon_mesh Map.empty "''out.obj''"]
    save_mesh_obj_first_cell [of box_mesh Map.empty "''out.obj''"]
    save_mesh_obj_first_cell [of quad_mesh Map.empty "''out.obj''"]
  by (simp add: pentagon_mesh_def box_mesh_def quad_mesh_def cell_type_of_def)

section \<open>Claims about the tunnel walls\<close>

text \<open>
  Claim C6, as stated, fails: for the tunnel box from \<open>(0, 0, 0)\<close> to
  \<open>(20, 10, 8)\<close> the visualizer builds four wall panels, not six; there is none at
  \<open>y = y_max\<close> and none at \<open>z = z_max\<close>.
\<close>

theorem walls_six_counterexample:
  "length (walls (WindTunnelVisualizer 0 20 0 10 0 8)) = 4
   \<and> walls (WindTunnelVisualizer 0 20 0 10 0 8) =
       [Plane (0, 5, 4) (1, 0, 0) 8 10, Plane (20, 5, 4) (1, 0, 0) 8 10,
        Plane (10, 0, 4) (0, 1, 0) 8 20, Plane (10, 5, 0) (0, 0, 1) 20 10]"
  by (simp add: walls_def WindTunnelVisualizer_def add_walls_def add_origin_sphere_def
      get_x_aligned_rectangle_def get_y_aligned_rectangle_def get_z_aligned_rectangle_def)

text \<open>
  Claim C6, amended. For every tunnel box the visualizer builds exactly four axis-aligned
  wall panels: at \<open>x = x_min\<close>, at \<open>x = x_max\<close>, at \<open>y = y_min\<close> and at
  \<open>z = z_min\<close>, each centred on the midpoints of its two in-plane dimensions and sized
  by their extents.
\<close>

theorem walls_four_panels:
  "walls (WindTunnelVisualizer xmin xmax ymin ymax zmin zmax) =
     [Plane (xmin, (ymin + ymax) / 2, (zmin + zmax) / 2) (1, 0, 0) (zmax - zmin) (ymax - ymin),
      Plane (xmax, (ymin + ymax) / 2, (zmin + zmax) / 2) (1, 0, 0) (zmax - zmin) (ymax - ymin),
      Plane ((xmin + xmax) / 2, ymin, (zmin + zmax) / 2) (0, 1, 0) (zmax - zmin) (xmax - xmin),
      Plane ((xmin + xmax) / 2, (ymin + ymax) / 2, zmin) (0, 0, 1) (xmax - xmin) (ymax - ymin)]
   \<and> walls (add_walls v opac) = walls v @
     [Plane (x_min v, (y_min v + y_max v) / 2, (z_min v + z_max v) / 2) (1, 0, 0)
        (z_max v - z_min v) (y_max v - y_min v),
      Plane (x_max v, (y_min v + y_max v) / 2, (z_min v + z_max v) / 2) (1, 0, 0)
        (z_max v - z_min v) (y_max v - y_min v),
      Plane ((x_min v + x_max v) / 2, y_min v, (z_min v + z_max v) / 2) (0, 1, 0)
        (z_max v - z_min v) (x_max v - x_min v),
      Plane ((x_min v + x_max v) / 2, (y_min v + y_max v) / 2, z_min v) (0, 0, 1)
        (x_max v - x_min v) (y_max v - y_min v)]"
  by (simp add: walls_def WindTunnelVisualizer_def add_walls_def add_origin_sphere_def
      get_x_aligned_rectangle_def get_y_aligned_rectangle_def get_z_aligned_rectangle_def)

section \<open>Claims about the force coefficient history\<close>

lemmas lower_simps = lower_def lower_char_def uppercase_def lowercase_def

lemma skip_lines_header:
  "length header = n \<Longrightarrow> skip_lines n (header @ data) = Inr data"
proof (induction n arbitrary: header)
  case 0
  then show ?case by simp
next
  case (Suc n)
  then obtain l rest where "header = l # rest" "length rest = n"
    by (cases header) auto
  with Suc.IH show ?case by simp
qed

lemma skip_lines_short:
  "length ls < n \<Longrightarrow> skip_lines n ls = Inl StopIteration"
proof (induction n arbitrary: ls)
  case 0
  then show ?case by simp
next
  case (Suc n)
  then show ?case by (cases ls) auto
qed

lemma read_rows_ok:
  assumes "\<forall>line \<in> set data. row_ok to_float k line"
  shows "read_rows to_float k data time coeff =
     Inr (time @ map (\<lambda>line. the (to_float (split line ! 0))) data,
          coeff @ map (\<lambda>line. the (to_float (split line ! k))) data)"
  using assms
proof (induction data arbitrary: time coeff)
  case Nil
  then show ?case by simp
next
  case (Cons line data)
  from Cons.prems have ok: "row_ok to_float k line"
    and rest: "\<forall>line \<in> set data. row_ok to_float k line"
    by simp_all
  from ok obtain t c where t: "to_float (split line ! 0) = Some t"
    and c: "to_float (split line ! k) = Some c" and len: "k < length (split line)"
    by (auto simp: row_ok_def)
  from len have "split line \<noteq> []"
    by auto
  then show ?case
    using len by (simp add: t c Cons.IH [OF rest] Let_def)
qed

lemma coeffs_map_columns:
  "coeffs_map ''moment'' = Some 1" "coeffs_map ''drag'' = Some 2" "coeffs_map ''lift'' = Some 3"
  "coeffs_map ''front lift'' = Some 4" "coeffs_map ''rear lift'' = Some 5"
  by (simp_all add: coeffs_map_def)

lemma dom_coeffs_map:
  "dom coeffs_map = {''moment'', ''drag'', ''lift'', ''front lift'', ''rear lift''}"
  by (auto simp: coeffs_map_def dom_def split: if_splits)

lemma sample_row:
  "split ''0.1 0.0 1.2 0.5 0.3 0.2'' = [''0.1'', ''0.0'', ''1.2'', ''0.5'', ''0.3'', ''0.2'']"
  by (simp add: split_def isspace_def)

lemma sample_floats:
  "float_of_decimal ''0.1'' = Some (1 / 10)" "float_of_decimal ''1.2'' = Some (6 / 5)"
  by (simp_all add: float_of_decimal_def digit_of_def)

lemma lower_drag: "lower ''Drag'' = ''drag''" "lower ''DRAG'' = ''drag''" "lower ''drag'' = ''drag''"
  by (simp_all add: lower_simps)

text \<open>
  Claim C7. With a known coefficient name, the parser drops the first nine lines of the
  file whatever they contain (the result depends on the remaining lines only; a file of
  fewer than nine lines raises \<^verbatim>\<open>StopIteration\<close>), and reads from every remaining
  line word 0 as the time and the word selected by the name (moment 1, drag 2, lift 3,
  front lift 4, rear lift 5). A nine-line header followed by the row
  \<^verbatim>\<open>0.1 0.0 1.2 0.5 0.3 0.2\<close>, read for \<^verbatim>\<open>Drag\<close>, gives the time \<open>[0.1]\<close>
  and the coefficient \<open>[1.2]\<close>.
\<close>

theorem force_coefficients_parser:
  assumes "coeffs_map (lower coefficient) = Some k"
    and "files path = Some (header @ data)"
    and "length header = 9"
  shows "plot_force_coefficients to_float files path coefficient =
           (case read_rows to_float k data [] [] of
              Inl e \<Rightarrow> (Inl e, [path])
            | Inr (time, coeff) \<Rightarrow>
                (Inr \<lparr>plot_time = time, plot_coeff = coeff, xlabel = ''Time'',
                      ylabel = lower coefficient,
                      title = lower coefficient @ '' vs Time''\<rparr>, [path]))
       \<and> ((\<forall>line \<in> set data. row_ok to_float k line) \<longrightarrow>
            plot_force_coefficients to_float files path coefficient =
              (Inr \<lparr>plot_time = map (\<lambda>line. the (to_float (split line ! 0))) data,
                    plot_coeff = map (\<lambda>line. the (to_float (split line ! k))) data,
                    xlabel = ''Time'', ylabel = lower coefficient,
                    title = lower coefficient @ '' vs Time''\<rparr>, [path]))
       \<and> (\<forall>short. length short < 9 \<longrightarrow>
            plot_force_coefficients to_float (files(path \<mapsto> short)) path coefficient =
              (Inl StopIteration, [path]))
       \<and> coeffs_map ''moment'' = Some 1 \<and> coeffs_map ''drag'' = Some 2
       \<and> coeffs_map ''lift'' = Some 3 \<and> coeffs_map ''front lift'' = Some 4
       \<and> coeffs_map ''rear lift'' = Some 5
       \<and> plot_force_coefficients float_of_decimal
            [path \<mapsto> header @ [''0.1 0.0 1.2 0.5 0.3 0.2'']] path ''Drag'' =
              (Inr \<lparr>plot_time = [1 / 10], plot_coeff = [6 / 5], xlabel = ''Time'',
                    ylabel = ''drag'',
                    title = ''drag vs Time''\<rparr>, [path])"
proof -
  have skip: "skip_lines 9 (header @ rest) = Inr rest" for rest
    using assms(3) by (rule skip_lines_header)
  have general: "plot_force_coefficients to_float files path coefficient =
           (case read_rows to_float k data [] [] of
              Inl e \<Rightarrow> (Inl e, [path])
            | Inr (time, coeff) \<Rightarrow>
                (Inr \<lparr>plot_time = time, plot_coeff = coeff, xlabel = ''Time'',
                      ylabel = lower coefficient,
                      title = lower coefficient @ '' vs Time''\<rparr>, [path]))"
    by (simp add: plot_force_coefficients_def Let_def assms(1,2) skip)
  have rows_ok: "plot_force_coefficients to_float files path coefficient =
              (Inr \<lparr>plot_time = map (\<lambda>line. the (to_float (split line ! 0))) data,
                    plot_coeff = map (\<lambda>line. the (to_float (split line ! k))) data,
                    xlabel = ''Time'', ylabel = lower coefficient,
                    title = lower coefficient @ '' vs Time''\<rparr>, [path])"
    if "\<forall>line \<in> set data. row_ok to_float k line"
    using read_rows_ok [OF that, of "[]" "[]"] by (simp add: general)
  have short: "plot_force_coefficients to_float (files(path \<mapsto> short)) path coefficient =
              (Inl StopIteration, [path])" if "length short < 9" for short
    using skip_lines_short [OF that]
    by (simp add: plot_force_coefficients_def Let_def assms(1))
  have example: "plot_force_coefficients float_of_decimal
            [path \<mapsto> header @ [''0.1 0.0 1.2 0.5 0.3 0.2'']] path ''Drag'' =
              (Inr \<lparr>plot_time = [1 / 10], plot_coeff = [6 / 5], xlabel = ''Time'',
                    ylabel = ''drag'',
                    title = ''drag vs Time''\<rparr>, [path])"
    by (simp add: plot_force_coefficients_def Let_def lower_drag coeffs_map_columns skip
        sample_row sample_floats)
  show ?thesis
    using general rows_ok short example coeffs_map_columns by blast
qed

theorem force_coefficients_parser_witness:
  "plot_force_coefficients float_of_decimal
     [''coefficient.dat'' \<mapsto> header9 @ [''0.1 0.0 1.2 0.5 0.3 0.2'', ''0.2 0.0 1.1 0.4 0.3 0.1'']]
     ''coefficient.dat'' ''Lift''
   = (Inr \<lparr>plot_time = [1 / 10, 1 / 5], plot_coeff = [1 / 2, 2 / 5], xlabel = ''Time'',
           ylabel = ''lift'',
           title = ''lift vs Time''\<rparr>, [''coefficient.dat''])"
proof -
  have l: "lower ''Lift'' = ''lift''"
    by (simp add: lower_simps)
  have r: "split ''0.2 0.0 1.1 0.4 0.3 0.1'' = [''0.2'', ''0.0'', ''1.1'', ''0.4'', ''0.3'', ''0.1'']"
    by (simp add: split_def isspace_def)
  have f: "float_of_decimal ''0.5'' = Some (1 / 2)" "float_of_decimal ''0.2'' = Some (1 / 5)"
    "float_of_decimal ''0.4'' = Some (2 / 5)"
    by (simp_all add: float_of_decimal_def digit_of_def)
  have h: "length header9 = 9"
    by (simp add: header9_def)
  from force_coefficients_parser
    [of "''Lift''" 3 "[''coefficient.dat'' \<mapsto> header9 @ [''0.1 0.0 1.2 0.5 0.3 0.2'', ''0.2 0.0 1.1 0.4 0.3 0.1'']]"
        "''coefficient.dat''" header9 "[''0.1 0.0 1.2 0.5 0.3 0.2'', ''0.2 0.0 1.1 0.4 0.3 0.1'']"
        float_of_decimal]
  show ?thesis
    by (simp add: l coeffs_map_columns h sample_row sample_floats r f Let_def)
qed

text \<open>
  Claim C10. The coefficient name is lowercased before the lookup: the function raises
  the invalid-coefficient \<^verbatim>\<open>ValueError\<close> before opening any file exactly when the
  lowercased name is not one of the five known names, it opens the file whenever the name
  is known, and two names with the same lowercase form give the same result.
\<close>

theorem coefficient_lookup_case_insensitive:
  "(coeffs_map (lower coefficient) = None \<longleftrightarrow>
      plot_force_coefficients to_float files path coefficient =
        (Inl (ValueError (invalid_coefficient (lower coefficient))), []))
   \<and> (coeffs_map (lower coefficient) = None \<longleftrightarrow>
        (\<exists>msg. plot_force_coefficients to_float files path coefficient = (Inl (ValueError msg), [])))
   \<and> (coeffs_map (lower coefficient) \<noteq> None \<longleftrightarrow>
        snd (plot_force_coefficients to_float files path coefficient) = [path])
   \<and> (coeffs_map (lower coefficient) \<noteq> None \<longleftrightarrow>
        lower coefficient \<in> {''moment'', ''drag'', ''lift'', ''front lift'', ''rear lift''})
   \<and> (lower other = lower coefficient \<longrightarrow>
        plot_force_coefficients to_float files path other =
        plot_force_coefficients to_float files path coefficient)
   \<and> coeffs_map (lower ''Drag'') = Some 2 \<and> coeffs_map (lower ''DRAG'') = Some 2
   \<and> coeffs_map (lower ''drag'') = Some 2"
proof -
  have opened: "snd (plot_force_coefficients to_float files path coefficient) = [path]"
    if "coeffs_map (lower coefficient) = Some k" for k
    using that
    by (simp add: plot_force_coefficients_def Let_def split: option.splits sum.splits prod.splits)
  have rejected: "plot_force_coefficients to_float files path coefficient =
        (Inl (ValueError (invalid_coefficient (lower coefficient))), [])"
    if "coeffs_map (lower coefficient) = None"
    using that by (simp add: plot_force_coefficients_def Let_def)
  have a: "coeffs_map (lower coefficient) = None \<longleftrightarrow>
      plot_force_coefficients to_float files path coefficient =
        (Inl (ValueError (invalid_coefficient (lower coefficient))), [])"
    using opened rejected by (cases "coeffs_map (lower coefficient)") auto
  have b: "coeffs_map (lower coefficient) = None \<longleftrightarrow>
        (\<exists>msg. plot_force_coefficients to_float files path coefficient = (Inl (ValueError msg), []))"
    using opened rejected by (cases "coeffs_map (lower coefficient)") auto
  have c: "coeffs_map (lower coefficient) \<noteq> None \<longleftrightarrow>
        snd (plot_force_coefficients to_float files path coefficient) = [path]"
    using opened rejected by (cases "coeffs_map (lower coefficient)") auto
  have d: "coeffs_map (lower coefficient) \<noteq> None \<longleftrightarrow>
        lower coefficient \<in> {''moment'', ''drag'', ''lift'', ''front lift'', ''rear lift''}"
    using dom_coeffs_map by (auto simp: dom_def)
  have e: "plot_force_coefficients to_float files path other =
        plot_force_coefficients to_float files path coefficient"
    if "lower other = lower coefficient"
    using that by (simp add: plot_force_coefficients_def)
  show ?thesis
    using a b c d e by (simp add: lower_drag coeffs_map_columns)
qed

theorem coefficient_lookup_case_insensitive_witness:
  "plot_force_coefficients float_of_decimal Map.empty ''coefficient.dat'' ''Thrust''
     = (Inl (ValueError (invalid_coefficient ''thrust'')), [])
   \<and> plot_force_coefficients float_of_decimal Map.empty ''coefficient.dat'' ''DRAG''
     = plot_force_coefficients float_of_decimal Map.empty ''coefficient.dat'' ''drag''
   \<and> snd (plot_force_coefficients float_of_decimal Map.empty ''coefficient.dat'' ''drag'')
     = [''coefficient.dat'']"
proof -
  have t: "lower ''Thrust'' = ''thrust''"
    by (simp add: lower_simps)
  have n: "coeffs_map ''thrust'' = None"
    by (simp add: coeffs_map_def)
  from coefficient_lookup_case_insensitive
      [of "''Thrust''" float_of_decimal Map.empty "''coefficient.dat''"]
    coefficient_lookup_case_insensitive
      [of "''drag''" float_of_decimal Map.empty "''coefficient.dat''" "''DRAG''"]
  show ?thesis
    by (simp add: t n lower_drag coeffs_map_columns)
qed

end
